theory Spec2Isabelle
  imports Main
begin

section \<open>The bundle launcher of src/main.c\<close>

text \<open>
  The launcher is a straight line of system calls with early returns. The model keeps
  the C functions and their names; what the C library and the kernel do is a record of
  oracles (\<open>sys\<close>), and what the process can change or do is a state (\<open>proc\<close>): its
  environment and the trace of the calls it has made, in order.
\<close>

subsection \<open>Constants\<close>

definition MAX_ENV_LENGTH :: nat where
  "MAX_ENV_LENGTH = 4096"

definition EXEC_PATH :: string where
  "EXEC_PATH = ''/exec/base''"

definition LIB_PATH :: string where
  "LIB_PATH = ''/library''"

definition RES_PATH :: string where
  "RES_PATH = ''/resources''"

definition METADATA_PATH :: string where
  "METADATA_PATH = ''/info.yaml''"

definition ICON_PATH :: string where
  "ICON_PATH = ''/icon.png''"

definition EXIT_SUCCESS :: int where
  "EXIT_SUCCESS = 0"

definition EXIT_INVALID_ARGS :: int where
  "EXIT_INVALID_ARGS = 1"

definition EXIT_BUNDLE_ERROR :: int where
  "EXIT_BUNDLE_ERROR = 2"

definition EXIT_EXEC_ERROR :: int where
  "EXIT_EXEC_ERROR = 3"

definition EXIT_SYSTEM_ERROR :: int where
  "EXIT_SYSTEM_ERROR = 4"

definition LD_LIBRARY_PATH :: string where
  "LD_LIBRARY_PATH = ''LD_LIBRARY_PATH''"

datatype log_level_t = LOG_INFO | LOG_WARNING | LOG_ERROR | LOG_DEBUG

subsection \<open>The operating system\<close>

text \<open>
  The file types \<open>st_mode\<close> can report: \<open>S_ISREG\<close>, \<open>S_ISDIR\<close>, \<open>S_ISLNK\<close>, and
  everything else (devices, FIFOs, sockets).
\<close>

datatype ftype = IFREG | IFDIR | IFLNK | IFOTHER

text \<open>
  \<open>PATH_MAX\<close> comes from \<open><limits.h>\<close>, which is not part of the repository, so it is
  a parameter of the platform (4096 on Linux). \<open>SYMLOOP_MAX\<close> bounds the symbolic links
  one path resolution follows (40 on Linux). \<open>node\<close> gives the type of the object a
  path names without following a symbolic link in its last component, \<open>None\<close> when
  there is none; \<open>link\<close> gives the path a symbolic link leads to. \<open>x_ok\<close> is the
  answer of \<open>access(path, X_OK)\<close>, which the kernel gives for the real user and group
  of the process, with symbolic links followed. \<open>setenv_errno\<close> and \<open>execv_errno\<close> give the
  \<open>strerror\<close> text when the call fails and \<open>None\<close> when it succeeds; \<open>execv\<close> is
  asked separately from \<open>node\<close> and \<open>x_ok\<close>, since the file system may change between
  the check and the call. \<open>cwd\<close> is the result of \<open>getcwd(NULL, 0)\<close>.
\<close>

record sys =
  PATH_MAX :: nat
  SYMLOOP_MAX :: nat
  node :: "string \<Rightarrow> ftype option"
  link :: "string \<Rightarrow> string"
  x_ok :: "string \<Rightarrow> bool"
  setenv_errno :: "string \<Rightarrow> string \<Rightarrow> string option"
  execv_errno :: "string \<Rightarrow> string option"
  cwd :: "string option"

text \<open>
  A pathname that does not fit \<open>PATH_MAX\<close> bytes with its terminating NUL is refused
  by every call that takes one (\<open>ENAMETOOLONG\<close>), and the empty pathname names
  nothing (\<open>ENOENT\<close>).
\<close>

definition too_long :: "sys \<Rightarrow> string \<Rightarrow> bool" where
  "too_long s path = (PATH_MAX s \<le> length path)"

definition lstat :: "sys \<Rightarrow> string \<Rightarrow> ftype option" where
  "lstat s path = (if path = [] \<or> too_long s path then None else node s path)"

text \<open>
  \<open>stat(2)\<close> follows symbolic links: it reports the object at the end of the chain,
  and fails (\<open>ELOOP\<close>) when the chain is longer than \<open>SYMLOOP_MAX\<close>.
\<close>

fun follow :: "sys \<Rightarrow> nat \<Rightarrow> string \<Rightarrow> ftype option" where
  "follow s 0 path = (case lstat s path of Some IFLNK \<Rightarrow> None | r \<Rightarrow> r)"
| "follow s (Suc n) path =
     (case lstat s path of Some IFLNK \<Rightarrow> follow s n (link s path) | r \<Rightarrow> r)"

definition stat :: "sys \<Rightarrow> string \<Rightarrow> ftype option" where
  "stat s path = follow s (SYMLOOP_MAX s) path"

definition access_X_OK :: "sys \<Rightarrow> string \<Rightarrow> bool" where
  "access_X_OK s path = (path \<noteq> [] \<and> \<not> too_long s path \<and> x_ok s path)"

subsection \<open>The process\<close>

text \<open>
  The calls the launcher makes. \<open>Log\<close> is one call of \<open>log_message\<close>, with the level
  and the formatted message (the time stamp and the level's prefix, which
  \<open>log_message\<close> prints before it, are left out); \<open>Usage\<close> is the text of
  \<open>print_usage\<close> for a program name. \<open>Execv path argv\<close> is the call of \<open>execv\<close>.
\<close>

datatype event =
    Stat string
  | Access string
  | Getenv string
  | Setenv string string
  | Getcwd
  | Execv string "string list"
  | Log log_level_t string
  | Usage string

record proc =
  environ :: "string \<rightharpoonup> string"
  trace :: "event list"

text \<open>
  A function of the launcher either returns a value or, when \<open>execv\<close> succeeds, never
  returns: the process has become the program at \<open>path\<close>, started with \<open>argv\<close> and
  the environment the process had at that moment.
\<close>

datatype 'a outcome =
    Returns 'a
  | Replaced string "string list" "string \<rightharpoonup> string"

definition emit :: "event \<Rightarrow> proc \<Rightarrow> proc" where
  "emit e st = st\<lparr>trace := trace st @ [e]\<rparr>"

text \<open>\<open>LOG_ERROR\<close> goes to the error stream, every other level to standard output.\<close>

definition to_stderr :: "log_level_t \<Rightarrow> bool" where
  "to_stderr level = (level = LOG_ERROR)"

definition log_message :: "log_level_t \<Rightarrow> string \<Rightarrow> proc \<Rightarrow> proc" where
  "log_message level msg st = emit (Log level msg) st"

text \<open>
  \<open>snprintf(buf, size, "%s%s", a, b)\<close> leaves in \<open>buf\<close> the first \<open>size - 1\<close>
  characters of the formatted text: a longer text is cut, silently, as none of the
  callers looks at the return value.
\<close>

definition snprintf :: "nat \<Rightarrow> string \<Rightarrow> string" where
  "snprintf n str = take (n - 1) str"

definition getenv :: "string \<Rightarrow> proc \<Rightarrow> string option \<times> proc" where
  "getenv name st = (environ st name, emit (Getenv name) st)"

text \<open>\<open>setenv(name, value, 1)\<close>: on failure the environment is as it was.\<close>

definition setenv :: "sys \<Rightarrow> string \<Rightarrow> string \<Rightarrow> proc \<Rightarrow> string option \<times> proc" where
  "setenv s name val st =
     (case setenv_errno s name val of
        Some err \<Rightarrow> (Some err, emit (Setenv name val) st)
      | None \<Rightarrow> (None, emit (Setenv name val) (st\<lparr>environ := (environ st)(name \<mapsto> val)\<rparr>)))"

subsection \<open>file_exists, directory_exists\<close>

text \<open>
  The paths handed to these functions are never null pointers, so of the first test
  only \<open>strlen(path) == 0\<close> is left: the empty path is refused before \<open>stat\<close> is called.
\<close>

definition file_exists :: "sys \<Rightarrow> string \<Rightarrow> proc \<Rightarrow> bool \<times> proc" where
  "file_exists s path st =
     (if path = [] then (False, st)
      else case stat s path of
             None \<Rightarrow> (False, emit (Stat path) st)
           | Some m \<Rightarrow> (m = IFREG \<or> m = IFLNK, emit (Stat path) st))"

definition directory_exists :: "sys \<Rightarrow> string \<Rightarrow> proc \<Rightarrow> bool \<times> proc" where
  "directory_exists s path st =
     (if path = [] then (False, st)
      else case stat s path of
             None \<Rightarrow> (False, emit (Stat path) st)
           | Some m \<Rightarrow> (m = IFDIR, emit (Stat path) st))"

subsection \<open>validate_bundle\<close>

definition validate_bundle :: "sys \<Rightarrow> string \<Rightarrow> proc \<Rightarrow> int \<times> proc" where
  "validate_bundle s bundle_path st =
     (case directory_exists s bundle_path st of
        (False, st1) \<Rightarrow>
          (EXIT_BUNDLE_ERROR,
           log_message LOG_ERROR (''Bundle directory not found: '' @ bundle_path) st1)
      | (True, st1) \<Rightarrow>
          (let full_path = snprintf (PATH_MAX s) (bundle_path @ EXEC_PATH) in
           case file_exists s full_path st1 of
             (False, st2) \<Rightarrow>
               (EXIT_BUNDLE_ERROR,
                log_message LOG_ERROR (''Required executable not found: '' @ full_path) st2)
           | (True, st2) \<Rightarrow>
               (if \<not> access_X_OK s full_path then
                  (EXIT_BUNDLE_ERROR,
                   log_message LOG_ERROR
                     (''Executable lacks execute permissions: '' @ full_path)
                     (emit (Access full_path) st2))
                else
                  (EXIT_SUCCESS,
                   log_message LOG_INFO
                     (''Bundle validation successful: '' @ bundle_path)
                     (emit (Access full_path) st2)))))"

subsection \<open>configure_library_path\<close>

text \<open>
  Lines 222 to 230: what the block leaves in the buffer \<open>new_ld_path\<close>, and \<open>None\<close>
  when it returns early because the joined value would not fit.
\<close>

definition new_ld_path :: "string \<Rightarrow> string option \<Rightarrow> string option" where
  "new_ld_path lib_full_path current_ld_path =
     (case current_ld_path of
        None \<Rightarrow> Some (snprintf MAX_ENV_LENGTH lib_full_path)
      | Some cur \<Rightarrow>
          (if 0 < length cur then
             (if length lib_full_path + length cur + 2 > MAX_ENV_LENGTH then None
              else Some (snprintf MAX_ENV_LENGTH (lib_full_path @ '':'' @ cur)))
           else Some (snprintf MAX_ENV_LENGTH lib_full_path)))"

definition configure_library_path :: "sys \<Rightarrow> string \<Rightarrow> proc \<Rightarrow> int \<times> proc" where
  "configure_library_path s bundle_path st =
     (let lib_full_path = snprintf (PATH_MAX s) (bundle_path @ LIB_PATH) in
      case directory_exists s lib_full_path st of
        (False, st1) \<Rightarrow>
          (EXIT_SUCCESS,
           log_message LOG_WARNING (''Library directory not found: '' @ lib_full_path) st1)
      | (True, st1) \<Rightarrow>
          (case getenv LD_LIBRARY_PATH st1 of
             (current_ld_path, st2) \<Rightarrow>
               (case new_ld_path lib_full_path current_ld_path of
                  None \<Rightarrow>
                    (EXIT_SYSTEM_ERROR,
                     log_message LOG_ERROR ''LD_LIBRARY_PATH would exceed maximum length'' st2)
                | Some new \<Rightarrow>
                    (case setenv s LD_LIBRARY_PATH new st2 of
                       (Some err, st3) \<Rightarrow>
                         (EXIT_SYSTEM_ERROR,
                          log_message LOG_ERROR (''Failed to set LD_LIBRARY_PATH: '' @ err) st3)
                     | (None, st3) \<Rightarrow>
                         (EXIT_SUCCESS,
                          log_message LOG_DEBUG (''Full LD_LIBRARY_PATH: '' @ new)
                            (log_message LOG_INFO
                               (''Library path configured: '' @ lib_full_path) st3))))))"

subsection \<open>inspect_optional_components\<close>

definition inspect_optional_components :: "sys \<Rightarrow> string \<Rightarrow> proc \<Rightarrow> proc" where
  "inspect_optional_components s bundle_path st =
     (let metadata = snprintf (PATH_MAX s) (bundle_path @ METADATA_PATH);
          (m, st1) = file_exists s metadata st;
          st2 = (if m then log_message LOG_INFO (''Metadata file found: '' @ metadata) st1
                 else log_message LOG_DEBUG ''Metadata file not present'' st1);
          icon = snprintf (PATH_MAX s) (bundle_path @ ICON_PATH);
          (i, st3) = file_exists s icon st2;
          st4 = (if i then log_message LOG_INFO (''Icon file found: '' @ icon) st3
                 else log_message LOG_DEBUG ''Icon file not present'' st3);
          res = snprintf (PATH_MAX s) (bundle_path @ RES_PATH);
          (r, st5) = directory_exists s res st4
      in if r then log_message LOG_INFO (''Resources directory found: '' @ res) st5
         else log_message LOG_DEBUG ''Resources directory not present'' st5)"

subsection \<open>launch_application\<close>

text \<open>A null pointer printed with \<open>%s\<close> appears as \<open>(null)\<close>.\<close>

definition show_ptr :: "string option \<Rightarrow> string" where
  "show_ptr p = (case p of None \<Rightarrow> ''(null)'' | Some str \<Rightarrow> str)"

text \<open>
  \<open>execv(exec_path, argv)\<close> with \<open>argv = { exec_path, NULL }\<close>. The array \<open>envp\<close>
  of the source is never used: \<open>execv\<close> hands the process's own environment on.
\<close>

definition launch_application :: "sys \<Rightarrow> string \<Rightarrow> proc \<Rightarrow> int outcome \<times> proc" where
  "launch_application s bundle_path st =
     (case validate_bundle s bundle_path st of
        (result, st1) \<Rightarrow>
          if result \<noteq> EXIT_SUCCESS then (Returns result, st1)
          else
            (case configure_library_path s bundle_path st1 of
               (result', st2) \<Rightarrow>
                 if result' \<noteq> EXIT_SUCCESS then (Returns result', st2)
                 else
                   (let st3 = inspect_optional_components s bundle_path st2;
                        exec_path = snprintf (PATH_MAX s) (bundle_path @ EXEC_PATH);
                        st4 = log_message LOG_INFO (''Launching application: '' @ exec_path) st3;
                        st5 = log_message LOG_DEBUG
                                (''Working directory: '' @ show_ptr (cwd s)) (emit Getcwd st4);
                        st6 = emit (Execv exec_path [exec_path]) st5
                    in case execv_errno s exec_path of
                         None \<Rightarrow> (Replaced exec_path [exec_path] (environ st6), st6)
                       | Some err \<Rightarrow>
                           (Returns EXIT_EXEC_ERROR,
                            log_message LOG_ERROR
                              (''Failed to execute application: '' @ err) st6))))"

subsection \<open>main\<close>

text \<open>\<open>%d\<close> of a number that is not negative.\<close>

fun show_nat :: "nat \<Rightarrow> string" where
  "show_nat n =
     (if n < 10 then [''0123456789'' ! n]
      else show_nat (n div 10) @ [''0123456789'' ! (n mod 10)])"

declare show_nat.simps [simp del]

text \<open>
  \<open>argc\<close> is the length of \<open>argv\<close>. With an empty \<open>argv\<close> the program name
  \<open>argv[0]\<close> is the null pointer that ends the array.
\<close>

definition main :: "sys \<Rightarrow> string list \<Rightarrow> proc \<Rightarrow> int outcome \<times> proc" where
  "main s argv st =
     (let argc = length argv in
      if argc \<noteq> 2 then
        (let st1 = (if argc > 2 then log_message LOG_ERROR ''Too many arguments provided'' st
                    else log_message LOG_ERROR ''Missing required bundle path argument'' st)
         in (Returns EXIT_INVALID_ARGS,
             emit (Usage (show_ptr (case argv of [] \<Rightarrow> None | a # _ \<Rightarrow> Some a))) st1))
      else
        (let bundle_path = argv ! 1 in
         if length bundle_path \<ge> PATH_MAX s then
           (Returns EXIT_INVALID_ARGS,
            log_message LOG_ERROR
              (''Bundle path too long (max '' @ show_nat (PATH_MAX s - 1) @ '' characters)'') st)
         else
           (let st1 = log_message LOG_INFO ''Starting Application Launcher v1.0.0'' st;
                st2 = log_message LOG_INFO (''Target bundle: '' @ bundle_path) st1
            in case launch_application s bundle_path st2 of
                 (Returns result, st3) \<Rightarrow>
                   (Returns result,
                    log_message LOG_ERROR ''Application launcher terminated unexpectedly'' st3)
               | (Replaced path args env, st3) \<Rightarrow> (Replaced path args env, st3))))"

subsection \<open>Vocabulary of the properties\<close>

text \<open>The calls a run has made: what it added to the trace it started from.\<close>

definition calls_since :: "proc \<Rightarrow> proc \<Rightarrow> event list" where
  "calls_since st st' = drop (length (trace st)) (trace st')"

text \<open>Calls that touch the file system, calls that read or write the environment.\<close>

fun file_call :: "event \<Rightarrow> bool" where
  "file_call (Stat p) = True"
| "file_call (Access p) = True"
| "file_call (Execv p a) = True"
| "file_call e = False"

fun env_call :: "event \<Rightarrow> bool" where
  "env_call (Getenv n) = True"
| "env_call (Setenv n v) = True"
| "env_call e = False"

fun is_execv :: "event \<Rightarrow> bool" where
  "is_execv (Execv p a) = True"
| "is_execv e = False"

text \<open>
  The value the configurator is to give the variable: the library directory alone when
  the variable is unset or empty, else the directory, a colon and the old value.
\<close>

definition joined_value :: "string \<Rightarrow> string option \<Rightarrow> string" where
  "joined_value lib cur =
     (case cur of None \<Rightarrow> lib | Some c \<Rightarrow> if c = [] then lib else lib @ '':'' @ c)"

subsection \<open>Concrete systems\<close>

text \<open>
  A process that has made no call yet: with an empty environment, with a library
  search path already set, with the variable set to the empty string, and with a
  search path of 4090 characters.
\<close>

definition st0 :: proc where
  "st0 = \<lparr>environ = Map.empty, trace = []\<rparr>"

definition st_env :: proc where
  "st_env = \<lparr>environ = [LD_LIBRARY_PATH \<mapsto> ''/usr/lib''], trace = []\<rparr>"

definition st_empty :: proc where
  "st_empty = \<lparr>environ = [LD_LIBRARY_PATH \<mapsto> []], trace = []\<rparr>"

definition st_full :: proc where
  "st_full = \<lparr>environ = [LD_LIBRARY_PATH \<mapsto> replicate 4090 (CHR ''x'')], trace = []\<rparr>"

text \<open>
  A Linux system with the bundle \<open>/tmp/app\<close>: an executable regular file
  \<open>exec/base\<close> and a directory \<open>library\<close>.
\<close>

definition app_sys :: sys where
  "app_sys =
     \<lparr>PATH_MAX = 4096, SYMLOOP_MAX = 40,
      node = (\<lambda>p. if p = ''/tmp/app'' then Some IFDIR
                  else if p = ''/tmp/app/exec/base'' then Some IFREG
                  else if p = ''/tmp/app/library'' then Some IFDIR
                  else None),
      link = (\<lambda>p. p),
      x_ok = (\<lambda>p. p = ''/tmp/app/exec/base''),
      setenv_errno = (\<lambda>name val. None),
      execv_errno = (\<lambda>p. None),
      cwd = Some ''/''\<rparr>"

text \<open>
  The same system with \<open>exec/base\<close> not executable (mode 644), with \<open>setenv\<close>
  out of memory, and with \<open>execv\<close> refusing the file.
\<close>

definition mode644_sys :: sys where
  "mode644_sys = app_sys\<lparr>x_ok := (\<lambda>p. False)\<rparr>"

definition nomem_sys :: sys where
  "nomem_sys = app_sys\<lparr>setenv_errno := (\<lambda>name val. Some ''Cannot allocate memory'')\<rparr>"

definition noexec_sys :: sys where
  "noexec_sys = app_sys\<lparr>execv_errno := (\<lambda>p. Some ''Exec format error'')\<rparr>"

text \<open>
  The same bundle with \<open>exec/base\<close> a symbolic link to the directory
  \<open>/tmp/app/bin\<close>, which everybody may search.
\<close>

definition link_sys :: sys where
  "link_sys =
     app_sys\<lparr>node := (\<lambda>p. if p = ''/tmp/app'' then Some IFDIR
                           else if p = ''/tmp/app/exec/base'' then Some IFLNK
                           else if p = ''/tmp/app/bin'' then Some IFDIR
                           else None),
              link := (\<lambda>p. ''/tmp/app/bin''),
              x_ok := (\<lambda>p. True)\<rparr>"

text \<open>
  A bundle whose path has 4088 characters (4081 slashes, then \<open>tmp/app\<close>: a long
  way of writing \<open>/tmp/app\<close>), holding an executable regular file \<open>exec/b\<close> and
  a directory \<open>librar\<close>, and neither \<open>exec/base\<close> nor \<open>library\<close>.
\<close>

definition long_bundle :: string where
  "long_bundle = replicate 4081 (CHR ''/'') @ ''tmp/app''"

definition long_sys :: sys where
  "long_sys =
     app_sys\<lparr>node := (\<lambda>p. if p = long_bundle then Some IFDIR
                           else if p = long_bundle @ ''/exec/b'' then Some IFREG
                           else if p = long_bundle @ ''/librar'' then Some IFDIR
                           else None),
              x_ok := (\<lambda>p. p = long_bundle @ ''/exec/b'')\<rparr>"

section \<open>Properties\<close>

subsection \<open>System calls\<close>

lemma follow_not_link: "follow s n path \<noteq> Some IFLNK"
  by (induction n arbitrary: path) (auto split: option.splits ftype.splits)

lemma stat_not_link: "stat s path \<noteq> Some IFLNK"
  by (simp add: stat_def follow_not_link)

lemma follow_Some_fits: "follow s n path = Some m \<Longrightarrow> path \<noteq> [] \<and> length path < PATH_MAX s"
  by (cases n) (auto simp: lstat_def too_long_def split: option.splits ftype.splits if_splits)

lemma stat_Some_fits: "stat s path = Some m \<Longrightarrow> path \<noteq> [] \<and> length path < PATH_MAX s"
  unfolding stat_def by (rule follow_Some_fits)

lemma file_exists_eq:
  "file_exists s path st =
     (stat s path = Some IFREG, if path = [] then st else emit (Stat path) st)"
  using stat_not_link [of s path] stat_Some_fits [of s path]
  by (auto simp: file_exists_def split: option.splits)

lemma directory_exists_eq:
  "directory_exists s path st =
     (stat s path = Some IFDIR, if path = [] then st else emit (Stat path) st)"
  using stat_Some_fits [of s path]
  by (auto simp: directory_exists_def split: option.splits)

lemma snprintf_fits: "length str < n \<Longrightarrow> snprintf n str = str"
  by (simp add: snprintf_def)

lemma follow_no_link: "lstat s path \<noteq> Some IFLNK \<Longrightarrow> follow s n path = lstat s path"
  by (cases n; cases "lstat s path") (auto split: ftype.splits)

lemma stat_no_link: "lstat s path \<noteq> Some IFLNK \<Longrightarrow> stat s path = lstat s path"
  by (simp add: stat_def follow_no_link)

lemma stat_one_link:
  "lstat s path = Some IFLNK \<Longrightarrow> 0 < SYMLOOP_MAX s \<Longrightarrow>
   lstat s (link s path) \<noteq> Some IFLNK \<Longrightarrow> stat s path = lstat s (link s path)"
  by (cases "SYMLOOP_MAX s") (simp_all add: stat_def follow_no_link)

subsection \<open>Exit codes, traces\<close>

lemma exit_codes:
  "EXIT_SUCCESS = 0" "EXIT_INVALID_ARGS = 1" "EXIT_BUNDLE_ERROR = 2" "EXIT_EXEC_ERROR = 3"
  "EXIT_SYSTEM_ERROR = 4"
  by (simp_all add: EXIT_SUCCESS_def EXIT_INVALID_ARGS_def EXIT_BUNDLE_ERROR_def
        EXIT_EXEC_ERROR_def EXIT_SYSTEM_ERROR_def)

lemma trace_emit [simp]: "trace (emit e st) = trace st @ [e]"
  by (simp add: emit_def)

lemma environ_emit [simp]: "environ (emit e st) = environ st"
  by (simp add: emit_def)

lemma trace_log_message [simp]: "trace (log_message l m st) = trace st @ [Log l m]"
  by (simp add: log_message_def)

lemma environ_log_message [simp]: "environ (log_message l m st) = environ st"
  by (simp add: log_message_def)

lemma calls_since_append [simp]: "trace st' = trace st @ evs \<Longrightarrow> calls_since st st' = evs"
  by (simp add: calls_since_def)

lemma no_execv: "filter is_execv evs = [] \<Longrightarrow> Execv path args \<notin> set evs"
  by (induction evs) (auto split: if_splits)

subsection \<open>The functions in closed form\<close>

lemma validate_bundle_eq:
  "validate_bundle s p st =
     (let full = snprintf (PATH_MAX s) (p @ EXEC_PATH);
          st1 = (if p = [] then st else emit (Stat p) st);
          st2 = (if full = [] then st1 else emit (Stat full) st1)
      in if stat s p \<noteq> Some IFDIR then
           (EXIT_BUNDLE_ERROR, log_message LOG_ERROR (''Bundle directory not found: '' @ p) st1)
         else if stat s full \<noteq> Some IFREG then
           (EXIT_BUNDLE_ERROR, log_message LOG_ERROR (''Required executable not found: '' @ full) st2)
         else if \<not> access_X_OK s full then
           (EXIT_BUNDLE_ERROR,
            log_message LOG_ERROR (''Executable lacks execute permissions: '' @ full)
              (emit (Access full) st2))
         else
           (EXIT_SUCCESS,
            log_message LOG_INFO (''Bundle validation successful: '' @ p)
              (emit (Access full) st2)))"
  by (simp add: validate_bundle_def file_exists_eq directory_exists_eq Let_def)

lemma validate_bundle_calls:
  "\<exists>evs. trace (snd (validate_bundle s p st)) = trace st @ evs \<and> filter is_execv evs = []
         \<and> filter env_call evs = []"
  by (simp add: validate_bundle_eq Let_def)

lemma validate_bundle_environ [simp]: "environ (snd (validate_bundle s p st)) = environ st"
  by (simp add: validate_bundle_eq Let_def)

lemma validate_bundle_success:
  assumes "fst (validate_bundle s p st) = EXIT_SUCCESS"
  shows "stat s p = Some IFDIR"
    and "stat s (snprintf (PATH_MAX s) (p @ EXEC_PATH)) = Some IFREG"
    and "access_X_OK s (snprintf (PATH_MAX s) (p @ EXEC_PATH))"
    and "trace (snd (validate_bundle s p st)) =
           trace st @ [Stat p, Stat (snprintf (PATH_MAX s) (p @ EXEC_PATH)),
                       Access (snprintf (PATH_MAX s) (p @ EXEC_PATH)),
                       Log LOG_INFO (''Bundle validation successful: '' @ p)]"
proof -
  show dir: "stat s p = Some IFDIR"
    and reg: "stat s (snprintf (PATH_MAX s) (p @ EXEC_PATH)) = Some IFREG"
    and "access_X_OK s (snprintf (PATH_MAX s) (p @ EXEC_PATH))"
    using assms by (auto simp: validate_bundle_eq Let_def exit_codes split: if_splits)
  then show "trace (snd (validate_bundle s p st)) =
           trace st @ [Stat p, Stat (snprintf (PATH_MAX s) (p @ EXEC_PATH)),
                       Access (snprintf (PATH_MAX s) (p @ EXEC_PATH)),
                       Log LOG_INFO (''Bundle validation successful: '' @ p)]"
    using stat_Some_fits [OF dir] stat_Some_fits [OF reg]
    by (simp add: validate_bundle_eq Let_def)
qed

lemma configure_library_path_eq:
  "configure_library_path s p st =
     (let lib = snprintf (PATH_MAX s) (p @ LIB_PATH);
          st1 = (if lib = [] then st else emit (Stat lib) st);
          st2 = emit (Getenv LD_LIBRARY_PATH) st1
      in if stat s lib \<noteq> Some IFDIR then
           (EXIT_SUCCESS, log_message LOG_WARNING (''Library directory not found: '' @ lib) st1)
         else
           (case new_ld_path lib (environ st LD_LIBRARY_PATH) of
              None \<Rightarrow>
                (EXIT_SYSTEM_ERROR,
                 log_message LOG_ERROR ''LD_LIBRARY_PATH would exceed maximum length'' st2)
            | Some new \<Rightarrow>
                (case setenv_errno s LD_LIBRARY_PATH new of
                   Some err \<Rightarrow>
                     (EXIT_SYSTEM_ERROR,
                      log_message LOG_ERROR (''Failed to set LD_LIBRARY_PATH: '' @ err)
                        (emit (Setenv LD_LIBRARY_PATH new) st2))
                 | None \<Rightarrow>
                     (EXIT_SUCCESS,
                      log_message LOG_DEBUG (''Full LD_LIBRARY_PATH: '' @ new)
                        (log_message LOG_INFO (''Library path configured: '' @ lib)
                           (emit (Setenv LD_LIBRARY_PATH new)
                              (st2\<lparr>environ := (environ st)(LD_LIBRARY_PATH \<mapsto> new)\<rparr>)))))))"
  by (simp add: configure_library_path_def directory_exists_eq getenv_def setenv_def Let_def
           split: option.splits)

lemma new_ld_path_joined:
  "new_ld_path lib cur =
     (if cur \<noteq> None \<and> cur \<noteq> Some [] \<and> MAX_ENV_LENGTH < length (joined_value lib cur) + 1
      then None else Some (snprintf MAX_ENV_LENGTH (joined_value lib cur)))"
  by (auto simp: new_ld_path_def joined_value_def split: option.splits)

lemma configure_library_path_calls:
  "\<exists>evs. trace (snd (configure_library_path s p st)) = trace st @ evs \<and> filter is_execv evs = []"
  by (simp add: configure_library_path_eq Let_def split: option.splits)

lemma inspect_optional_components_calls:
  "\<exists>evs. trace (inspect_optional_components s p st) = trace st @ evs \<and> filter is_execv evs = []"
  by (simp add: inspect_optional_components_def file_exists_eq directory_exists_eq Let_def)

lemma inspect_optional_components_environ [simp]:
  "environ (inspect_optional_components s p st) = environ st"
  by (simp add: inspect_optional_components_def file_exists_eq directory_exists_eq Let_def)

lemma launch_application_stops:
  "fst (validate_bundle s p st) \<noteq> EXIT_SUCCESS \<Longrightarrow>
     launch_application s p st =
       (Returns (fst (validate_bundle s p st)), snd (validate_bundle s p st))"
  "fst (validate_bundle s p st) = EXIT_SUCCESS \<Longrightarrow>
   fst (configure_library_path s p (snd (validate_bundle s p st))) \<noteq> EXIT_SUCCESS \<Longrightarrow>
     launch_application s p st =
       (Returns (fst (configure_library_path s p (snd (validate_bundle s p st)))),
        snd (configure_library_path s p (snd (validate_bundle s p st))))"
  by (simp_all add: launch_application_def split_beta)

lemma launch_application_handoff_eq:
  assumes "fst (validate_bundle s p st) = EXIT_SUCCESS"
    and "fst (configure_library_path s p (snd (validate_bundle s p st))) = EXIT_SUCCESS"
  shows "launch_application s p st =
     (let st3 = inspect_optional_components s p
                  (snd (configure_library_path s p (snd (validate_bundle s p st))));
          x = snprintf (PATH_MAX s) (p @ EXEC_PATH);
          st6 = emit (Execv x [x])
                  (log_message LOG_DEBUG (''Working directory: '' @ show_ptr (cwd s))
                     (emit Getcwd (log_message LOG_INFO (''Launching application: '' @ x) st3)))
      in case execv_errno s x of
           None \<Rightarrow> (Replaced x [x] (environ st6), st6)
         | Some err \<Rightarrow>
             (Returns EXIT_EXEC_ERROR,
              log_message LOG_ERROR (''Failed to execute application: '' @ err) st6))"
  using assms by (simp add: launch_application_def split_beta Let_def)

lemma launch_application_handoff_calls:
  assumes v: "fst (validate_bundle s p st) = EXIT_SUCCESS"
    and c: "fst (configure_library_path s p (snd (validate_bundle s p st))) = EXIT_SUCCESS"
  shows "\<exists>mid fin. filter is_execv mid = [] \<and> filter is_execv fin = [] \<and>
           calls_since st (snd (launch_application s p st)) =
             [Stat p, Stat (snprintf (PATH_MAX s) (p @ EXEC_PATH)),
              Access (snprintf (PATH_MAX s) (p @ EXEC_PATH))] @ mid @
             [Execv (snprintf (PATH_MAX s) (p @ EXEC_PATH)) [snprintf (PATH_MAX s) (p @ EXEC_PATH)]]
             @ fin"
proof -
  let ?x = "snprintf (PATH_MAX s) (p @ EXEC_PATH)"
  let ?v = "validate_bundle s p st"
  let ?c = "configure_library_path s p (snd ?v)"
  let ?i = "inspect_optional_components s p (snd ?c)"
  obtain e2 where e2: "trace (snd ?c) = trace (snd ?v) @ e2" "filter is_execv e2 = []"
    using configure_library_path_calls by blast
  obtain e3 where e3: "trace ?i = trace (snd ?c) @ e3" "filter is_execv e3 = []"
    using inspect_optional_components_calls by blast
  let ?mid = "[Log LOG_INFO (''Bundle validation successful: '' @ p)] @ e2 @ e3 @
              [Log LOG_INFO (''Launching application: '' @ ?x), Getcwd,
               Log LOG_DEBUG (''Working directory: '' @ show_ptr (cwd s))]"
  let ?fin = "case execv_errno s ?x of None \<Rightarrow> []
              | Some err \<Rightarrow> [Log LOG_ERROR (''Failed to execute application: '' @ err)]"
  have "trace (snd (launch_application s p st)) =
          trace st @ [Stat p, Stat ?x, Access ?x] @ ?mid @ [Execv ?x [?x]] @ ?fin"
    unfolding launch_application_handoff_eq [OF v c] Let_def
    using e2 e3 validate_bundle_success(4) [OF v]
    by (simp split: option.splits)
  then have "calls_since st (snd (launch_application s p st)) =
          [Stat p, Stat ?x, Access ?x] @ ?mid @ [Execv ?x [?x]] @ ?fin"
    by (rule calls_since_append)
  moreover have "filter is_execv ?mid = []" "filter is_execv ?fin = []"
    using e2 e3 by (simp_all split: option.splits)
  ultimately show ?thesis by blast
qed

lemma main_passes:
  "length p < PATH_MAX s \<Longrightarrow>
   main s [prog, p] st =
     (case launch_application s p
             (log_message LOG_INFO (''Target bundle: '' @ p)
                (log_message LOG_INFO ''Starting Application Launcher v1.0.0'' st)) of
        (Returns result, st3) \<Rightarrow>
          (Returns result,
           log_message LOG_ERROR ''Application launcher terminated unexpectedly'' st3)
      | (Replaced path args env, st3) \<Rightarrow> (Replaced path args env, st3))"
  by (simp add: main_def Let_def)

subsection \<open>The concrete systems, evaluated\<close>

lemma variants:
  "node mode644_sys = node app_sys" "PATH_MAX mode644_sys = 4096"
  "node nomem_sys = node app_sys" "PATH_MAX nomem_sys = 4096"
  "node noexec_sys = node app_sys" "PATH_MAX noexec_sys = 4096"
  "PATH_MAX app_sys = 4096" "PATH_MAX link_sys = 4096" "PATH_MAX long_sys = 4096"
  "x_ok nomem_sys = x_ok app_sys" "x_ok noexec_sys = x_ok app_sys"
  "setenv_errno noexec_sys = setenv_errno app_sys"
  by (simp_all add: mode644_sys_def nomem_sys_def noexec_sys_def link_sys_def long_sys_def
        app_sys_def)

lemma app_stat:
  assumes "node s = node app_sys" and "PATH_MAX s = 4096"
  shows "stat s ''/tmp/app'' = Some IFDIR"
    and "stat s ''/tmp/app/exec/base'' = Some IFREG"
    and "stat s ''/tmp/app/library'' = Some IFDIR"
    and "stat s ''/tmp/missing'' = None"
proof -
  have "lstat s ''/tmp/app'' = Some IFDIR" "lstat s ''/tmp/app/exec/base'' = Some IFREG"
    "lstat s ''/tmp/app/library'' = Some IFDIR" "lstat s ''/tmp/missing'' = None"
    by (simp_all add: lstat_def too_long_def assms app_sys_def)
  then show "stat s ''/tmp/app'' = Some IFDIR" "stat s ''/tmp/app/exec/base'' = Some IFREG"
    "stat s ''/tmp/app/library'' = Some IFDIR" "stat s ''/tmp/missing'' = None"
    by (simp_all add: stat_no_link)
qed

lemma app_paths:
  assumes "PATH_MAX s = 4096"
  shows "snprintf (PATH_MAX s) (''/tmp/app'' @ EXEC_PATH) = ''/tmp/app/exec/base''"
    and "snprintf (PATH_MAX s) (''/tmp/app'' @ LIB_PATH) = ''/tmp/app/library''"
  by (simp_all add: assms snprintf_def EXEC_PATH_def LIB_PATH_def)

lemma app_validate:
  assumes "node s = node app_sys" and "PATH_MAX s = 4096" and "x_ok s = x_ok app_sys"
  shows "fst (validate_bundle s ''/tmp/app'' st) = EXIT_SUCCESS"
  unfolding validate_bundle_eq app_paths [OF assms(2)] Let_def
  by (simp add: app_stat [OF assms(1,2)] access_X_OK_def too_long_def assms app_sys_def)

lemma app_configure:
  assumes "node s = node app_sys" and "PATH_MAX s = 4096"
    and "setenv_errno s = setenv_errno app_sys"
    and "environ st LD_LIBRARY_PATH = Some ''/usr/lib''"
  shows "fst (configure_library_path s ''/tmp/app'' st) = EXIT_SUCCESS"
    and "environ (snd (configure_library_path s ''/tmp/app'' st)) =
           (environ st)(LD_LIBRARY_PATH \<mapsto> ''/tmp/app/library:/usr/lib'')"
  unfolding configure_library_path_eq app_paths [OF assms(2)] Let_def
  by (simp_all add: app_stat [OF assms(1,2)] assms new_ld_path_def snprintf_def
        MAX_ENV_LENGTH_def app_sys_def)

lemma long_paths:
  "length long_bundle = 4088"
  "long_bundle \<noteq> []"
  "snprintf (PATH_MAX long_sys) (long_bundle @ EXEC_PATH) = long_bundle @ ''/exec/b''"
  "snprintf (PATH_MAX long_sys) (long_bundle @ LIB_PATH) = long_bundle @ ''/librar''"
  by (simp_all add: long_bundle_def long_sys_def app_sys_def snprintf_def EXEC_PATH_def
        LIB_PATH_def)

lemma long_stat:
  "stat long_sys long_bundle = Some IFDIR"
  "stat long_sys (long_bundle @ ''/exec/b'') = Some IFREG"
  "stat long_sys (long_bundle @ ''/librar'') = Some IFDIR"
  "lstat long_sys (long_bundle @ LIB_PATH) = None"
  "stat long_sys (long_bundle @ LIB_PATH) = None"
  "access_X_OK long_sys (long_bundle @ ''/exec/b'')"
  "stat long_sys (long_bundle @ EXEC_PATH) = None"
proof -
  have l: "lstat long_sys long_bundle = Some IFDIR"
    "lstat long_sys (long_bundle @ ''/exec/b'') = Some IFREG"
    "lstat long_sys (long_bundle @ ''/librar'') = Some IFDIR"
    using long_paths(1,2)
    by (simp_all add: lstat_def too_long_def long_sys_def app_sys_def)
  show n: "lstat long_sys (long_bundle @ LIB_PATH) = None"
    using long_paths(1)
    by (simp add: lstat_def too_long_def long_sys_def app_sys_def LIB_PATH_def)
  show "stat long_sys long_bundle = Some IFDIR"
    "stat long_sys (long_bundle @ ''/exec/b'') = Some IFREG"
    "stat long_sys (long_bundle @ ''/librar'') = Some IFDIR"
    "stat long_sys (long_bundle @ LIB_PATH) = None"
    using l n by (simp_all add: stat_no_link)
  show "access_X_OK long_sys (long_bundle @ ''/exec/b'')"
    using long_paths(1,2)
    by (simp add: access_X_OK_def too_long_def long_sys_def app_sys_def)
  have "lstat long_sys (long_bundle @ EXEC_PATH) = None"
    using long_paths(1)
    by (simp add: lstat_def too_long_def long_sys_def app_sys_def EXEC_PATH_def)
  then show "stat long_sys (long_bundle @ EXEC_PATH) = None"
    by (simp add: stat_no_link)
qed

lemma long_validate: "fst (validate_bundle long_sys long_bundle st) = EXIT_SUCCESS"
  unfolding validate_bundle_eq long_paths Let_def by (simp add: long_stat)

lemma long_configure:
  assumes "environ st LD_LIBRARY_PATH = None"
  shows "fst (configure_library_path long_sys long_bundle st) = EXIT_SUCCESS"
    and "environ (snd (configure_library_path long_sys long_bundle st)) =
           (environ st)(LD_LIBRARY_PATH \<mapsto> long_bundle @ ''/librar'')"
proof -
  have new: "new_ld_path (long_bundle @ ''/librar'') None = Some (long_bundle @ ''/librar'')"
    using long_paths(1) by (simp add: new_ld_path_def snprintf_def MAX_ENV_LENGTH_def)
  have set: "setenv_errno long_sys LD_LIBRARY_PATH (long_bundle @ ''/librar'') = None"
    by (simp add: long_sys_def app_sys_def)
  show "fst (configure_library_path long_sys long_bundle st) = EXIT_SUCCESS"
    and "environ (snd (configure_library_path long_sys long_bundle st)) =
           (environ st)(LD_LIBRARY_PATH \<mapsto> long_bundle @ ''/librar'')"
    unfolding configure_library_path_eq long_paths Let_def
    by (simp_all add: long_stat assms new set)
qed

section \<open>The properties of the specification\<close>

subsection \<open>C1: the bundle validator\<close>

text \<open>
  What the validator decides. For a bundle path short enough that
  \<open>bundle_path/exec/base\<close> fits the path buffer, \<open>validate_bundle\<close> returns \<open>EXIT_SUCCESS\<close> if and only if
  \<open>stat\<close> reports the bundle path as a directory, \<open>stat\<close> (which follows symbolic
  links) reports \<open>bundle_path/exec/base\<close> as a regular file, and \<open>access\<close> grants
  \<open>X_OK\<close> on it. Otherwise it returns \<open>EXIT_BUNDLE_ERROR\<close>, and the last thing it
  did was to log, as an error, the diagnostic of the first check that failed; the three
  diagnostics differ. The environment is never changed.
\<close>

lemma validate_bundle_checks:
  assumes "length bundle_path + length EXEC_PATH < PATH_MAX s"
  shows "(fst (validate_bundle s bundle_path st) = EXIT_SUCCESS \<longleftrightarrow>
            stat s bundle_path = Some IFDIR \<and>
            stat s (bundle_path @ EXEC_PATH) = Some IFREG \<and>
            access_X_OK s (bundle_path @ EXEC_PATH))
       \<and> (fst (validate_bundle s bundle_path st) \<noteq> EXIT_SUCCESS \<longrightarrow>
            fst (validate_bundle s bundle_path st) = EXIT_BUNDLE_ERROR \<and>
            last (trace (snd (validate_bundle s bundle_path st))) =
              Log LOG_ERROR
                (if stat s bundle_path \<noteq> Some IFDIR then
                   ''Bundle directory not found: '' @ bundle_path
                 else if stat s (bundle_path @ EXEC_PATH) \<noteq> Some IFREG then
                   ''Required executable not found: '' @ bundle_path @ EXEC_PATH
                 else ''Executable lacks execute permissions: '' @ bundle_path @ EXEC_PATH))
       \<and> environ (snd (validate_bundle s bundle_path st)) = environ st
       \<and> EXIT_BUNDLE_ERROR = 2
       \<and> ''Bundle directory not found: '' @ a \<noteq> ''Required executable not found: '' @ b
       \<and> ''Bundle directory not found: '' @ a \<noteq> ''Executable lacks execute permissions: '' @ c
       \<and> ''Required executable not found: '' @ b \<noteq>
           ''Executable lacks execute permissions: '' @ c"
proof -
  have full: "snprintf (PATH_MAX s) (bundle_path @ EXEC_PATH) = bundle_path @ EXEC_PATH"
    using assms by (simp add: snprintf_fits)
  show ?thesis
    unfolding validate_bundle_eq full Let_def
    by (simp add: exit_codes)
qed

text \<open>
  At \<open>/tmp/app\<close>: accepted when all is in place, refused with the permission
  diagnostic when \<open>exec/base\<close> has mode 644.
\<close>

lemma validate_bundle_checks_app:
  "length ''/tmp/app'' + length EXEC_PATH < PATH_MAX app_sys
   \<and> fst (validate_bundle app_sys ''/tmp/app'' st0) = EXIT_SUCCESS
   \<and> fst (validate_bundle mode644_sys ''/tmp/app'' st0) = EXIT_BUNDLE_ERROR
   \<and> last (trace (snd (validate_bundle mode644_sys ''/tmp/app'' st0))) =
        Log LOG_ERROR ''Executable lacks execute permissions: /tmp/app/exec/base''"
proof -
  have len: "length ''/tmp/app'' + length EXEC_PATH < PATH_MAX app_sys"
    and len': "length ''/tmp/app'' + length EXEC_PATH < PATH_MAX mode644_sys"
    by (simp_all add: EXEC_PATH_def variants)
  have x: "access_X_OK app_sys ''/tmp/app/exec/base''"
    "\<not> access_X_OK mode644_sys ''/tmp/app/exec/base''"
    by (simp_all add: access_X_OK_def too_long_def app_sys_def mode644_sys_def)
  have s: "stat app_sys ''/tmp/app'' = Some IFDIR"
    "stat app_sys (''/tmp/app'' @ EXEC_PATH) = Some IFREG"
    "stat mode644_sys ''/tmp/app'' = Some IFDIR"
    "stat mode644_sys (''/tmp/app'' @ EXEC_PATH) = Some IFREG"
    using app_stat(1,2) [OF refl variants(7)] app_stat(1,2) [OF variants(1,2)]
    by (simp_all add: EXEC_PATH_def)
  have a: "access_X_OK app_sys (''/tmp/app'' @ EXEC_PATH)"
    "\<not> access_X_OK mode644_sys (''/tmp/app'' @ EXEC_PATH)"
    using x by (simp_all add: EXEC_PATH_def)
  have "fst (validate_bundle app_sys ''/tmp/app'' st0) = EXIT_SUCCESS"
    using validate_bundle_checks [OF len, of st0] s a by simp
  moreover have "fst (validate_bundle mode644_sys ''/tmp/app'' st0) = EXIT_BUNDLE_ERROR
     \<and> last (trace (snd (validate_bundle mode644_sys ''/tmp/app'' st0))) =
        Log LOG_ERROR (''Executable lacks execute permissions: '' @ ''/tmp/app'' @ EXEC_PATH)"
    using validate_bundle_checks [OF len', of st0] s a by simp
  ultimately show ?thesis
    using len by (simp add: EXEC_PATH_def)
qed

text \<open>
  C1. The validator is to accept a bundle if and only if its path is a directory,
  \<open>exec/base\<close> exists as a regular file or a symbolic link, and that file may be
  executed. The code does not: \<open>file_exists\<close> means to accept a link, but it tests
  \<open>S_ISLNK\<close> on what \<open>stat\<close> reports, and \<open>stat\<close> never reports a link. Where
  \<open>exec/base\<close> is a symbolic link to a directory, the bundle path is a directory,
  \<open>exec/base\<close> exists as a symbolic link and \<open>access\<close> grants \<open>X_OK\<close> on it, yet
  the validator refuses the bundle, with the diagnostic of a missing file.
\<close>

theorem validate_bundle_rejects_symlink:
  "\<not> (fst (validate_bundle link_sys ''/tmp/app'' st0) = EXIT_SUCCESS \<longleftrightarrow>
        stat link_sys ''/tmp/app'' = Some IFDIR \<and>
        lstat link_sys (''/tmp/app'' @ EXEC_PATH) \<in> {Some IFREG, Some IFLNK} \<and>
        access_X_OK link_sys (''/tmp/app'' @ EXEC_PATH))
   \<and> fst (validate_bundle link_sys ''/tmp/app'' st0) = EXIT_BUNDLE_ERROR
   \<and> last (trace (snd (validate_bundle link_sys ''/tmp/app'' st0))) =
        Log LOG_ERROR ''Required executable not found: /tmp/app/exec/base''"
proof -
  have l1: "lstat link_sys ''/tmp/app'' = Some IFDIR"
    and l2: "lstat link_sys ''/tmp/app/exec/base'' = Some IFLNK"
    and l3: "lstat link_sys (link link_sys ''/tmp/app/exec/base'') = Some IFDIR"
    by (simp_all add: lstat_def too_long_def link_sys_def app_sys_def)
  have s1: "stat link_sys ''/tmp/app'' = Some IFDIR"
    using l1 by (simp add: stat_no_link)
  have s2: "stat link_sys ''/tmp/app/exec/base'' = Some IFDIR"
    using l2 l3 by (simp add: stat_one_link link_sys_def app_sys_def)
  have x: "access_X_OK link_sys ''/tmp/app/exec/base''"
    by (simp add: access_X_OK_def too_long_def link_sys_def app_sys_def)
  have full: "snprintf (PATH_MAX link_sys) (''/tmp/app'' @ EXEC_PATH) = ''/tmp/app/exec/base''"
    by (simp add: snprintf_def EXEC_PATH_def link_sys_def app_sys_def)
  show ?thesis
    unfolding validate_bundle_eq full Let_def
    using s1 s2 l2 x by (simp add: exit_codes EXEC_PATH_def)
qed

text \<open>
  In the other direction the validator accepts a bundle that has no \<open>exec/base\<close>:
  for a bundle path within ten characters of \<open>PATH_MAX\<close>, \<open>snprintf\<close> cuts the
  path of the executable, and the bundle of 4088 characters passes on the strength of
  \<open>exec/b\<close>.
\<close>

lemma validate_bundle_long_bundle:
  "fst (validate_bundle long_sys long_bundle st0) = EXIT_SUCCESS
   \<and> stat long_sys (long_bundle @ EXEC_PATH) = None"
  by (simp add: long_validate long_stat)

subsection \<open>C2: the library directory is put in front of the old value\<close>

text \<open>
  C2. When the bundle has a \<open>library\<close> directory, \<open>LD_LIBRARY_PATH\<close> holds a value
  that is not empty and \<open>configure_library_path\<close> returns \<open>EXIT_SUCCESS\<close>, the
  variable afterwards holds the path of the library directory, a colon and the old
  value, unchanged; no other variable is touched.
\<close>

theorem configure_library_path_prepends:
  assumes "stat s (bundle_path @ LIB_PATH) = Some IFDIR"
    and "environ st LD_LIBRARY_PATH = Some old" and "old \<noteq> []"
    and "fst (configure_library_path s bundle_path st) = EXIT_SUCCESS"
  shows "environ (snd (configure_library_path s bundle_path st)) =
           (environ st)(LD_LIBRARY_PATH \<mapsto> bundle_path @ LIB_PATH @ '':'' @ old)"
proof -
  have lib: "snprintf (PATH_MAX s) (bundle_path @ LIB_PATH) = bundle_path @ LIB_PATH"
    using stat_Some_fits [OF assms(1)] by (simp add: snprintf_fits)
  show ?thesis
    using assms unfolding configure_library_path_eq lib Let_def
    by (auto simp: new_ld_path_def snprintf_def exit_codes split: option.splits if_splits)
qed

theorem configure_library_path_prepends_witness:
  "stat app_sys (''/tmp/app'' @ LIB_PATH) = Some IFDIR
   \<and> environ st_env LD_LIBRARY_PATH = Some ''/usr/lib''
   \<and> fst (configure_library_path app_sys ''/tmp/app'' st_env) = EXIT_SUCCESS
   \<and> environ (snd (configure_library_path app_sys ''/tmp/app'' st_env)) LD_LIBRARY_PATH =
       Some ''/tmp/app/library:/usr/lib''"
proof -
  have d: "stat app_sys (''/tmp/app'' @ LIB_PATH) = Some IFDIR"
    using app_stat(3) [of app_sys] by (simp add: LIB_PATH_def variants)
  have e: "environ st_env LD_LIBRARY_PATH = Some ''/usr/lib''"
    by (simp add: st_env_def)
  have ok: "fst (configure_library_path app_sys ''/tmp/app'' st_env) = EXIT_SUCCESS"
    using app_configure(1) [of app_sys st_env] e by (simp add: variants)
  show ?thesis
    using configure_library_path_prepends [OF d e _ ok] d e ok
    by (simp add: LIB_PATH_def)
qed

subsection \<open>C3: the handoff\<close>

text \<open>
  C3. Once validation and configuration have succeeded, \<open>launch_application\<close> calls
  \<open>execv\<close> exactly once, with an argument vector of one element, the path of the
  executable itself. When the call succeeds the process is replaced and the program
  starts with the environment as \<open>configure_library_path\<close> left it; when it fails
  the launcher logs the failure as an error and returns \<open>EXIT_EXEC_ERROR\<close>, which is 3.
\<close>

theorem launch_application_handoff:
  assumes "fst (validate_bundle s bundle_path st) = EXIT_SUCCESS"
    and "fst (configure_library_path s bundle_path (snd (validate_bundle s bundle_path st))) =
           EXIT_SUCCESS"
  shows "filter is_execv (calls_since st (snd (launch_application s bundle_path st))) =
           [Execv (snprintf (PATH_MAX s) (bundle_path @ EXEC_PATH))
                  [snprintf (PATH_MAX s) (bundle_path @ EXEC_PATH)]]
       \<and> (execv_errno s (snprintf (PATH_MAX s) (bundle_path @ EXEC_PATH)) = None \<longrightarrow>
            fst (launch_application s bundle_path st) =
              Replaced (snprintf (PATH_MAX s) (bundle_path @ EXEC_PATH))
                [snprintf (PATH_MAX s) (bundle_path @ EXEC_PATH)]
                (environ (snd (configure_library_path s bundle_path
                                 (snd (validate_bundle s bundle_path st))))))
       \<and> (\<forall>err. execv_errno s (snprintf (PATH_MAX s) (bundle_path @ EXEC_PATH)) = Some err \<longrightarrow>
            fst (launch_application s bundle_path st) = Returns EXIT_EXEC_ERROR \<and>
            last (trace (snd (launch_application s bundle_path st))) =
              Log LOG_ERROR (''Failed to execute application: '' @ err))
       \<and> EXIT_EXEC_ERROR = 3"
proof -
  obtain mid fin where "filter is_execv mid = []" "filter is_execv fin = []"
    "calls_since st (snd (launch_application s bundle_path st)) =
       [Stat bundle_path, Stat (snprintf (PATH_MAX s) (bundle_path @ EXEC_PATH)),
        Access (snprintf (PATH_MAX s) (bundle_path @ EXEC_PATH))] @ mid @
       [Execv (snprintf (PATH_MAX s) (bundle_path @ EXEC_PATH))
              [snprintf (PATH_MAX s) (bundle_path @ EXEC_PATH)]] @ fin"
    using launch_application_handoff_calls [OF assms] by blast
  then have "filter is_execv (calls_since st (snd (launch_application s bundle_path st))) =
           [Execv (snprintf (PATH_MAX s) (bundle_path @ EXEC_PATH))
                  [snprintf (PATH_MAX s) (bundle_path @ EXEC_PATH)]]"
    by simp
  then show ?thesis
    unfolding launch_application_handoff_eq [OF assms] Let_def
    by (simp add: exit_codes split: option.splits)
qed

theorem launch_application_handoff_witness:
  "fst (validate_bundle app_sys ''/tmp/app'' st_env) = EXIT_SUCCESS
   \<and> fst (configure_library_path app_sys ''/tmp/app''
            (snd (validate_bundle app_sys ''/tmp/app'' st_env))) = EXIT_SUCCESS
   \<and> fst (launch_application app_sys ''/tmp/app'' st_env) =
       Replaced ''/tmp/app/exec/base'' [''/tmp/app/exec/base'']
         [LD_LIBRARY_PATH \<mapsto> ''/tmp/app/library:/usr/lib'']
   \<and> fst (launch_application noexec_sys ''/tmp/app'' st_env) = Returns EXIT_EXEC_ERROR
   \<and> last (trace (snd (launch_application noexec_sys ''/tmp/app'' st_env))) =
       Log LOG_ERROR ''Failed to execute application: Exec format error''"
proof -
  have v: "fst (validate_bundle app_sys ''/tmp/app'' st_env) = EXIT_SUCCESS"
    and v': "fst (validate_bundle noexec_sys ''/tmp/app'' st_env) = EXIT_SUCCESS"
    by (simp_all add: app_validate variants)
  have e: "environ (snd (validate_bundle app_sys ''/tmp/app'' st_env)) LD_LIBRARY_PATH =
        Some ''/usr/lib''"
    and e': "environ (snd (validate_bundle noexec_sys ''/tmp/app'' st_env)) LD_LIBRARY_PATH =
        Some ''/usr/lib''"
    by (simp_all add: st_env_def)
  have c: "fst (configure_library_path app_sys ''/tmp/app''
            (snd (validate_bundle app_sys ''/tmp/app'' st_env))) = EXIT_SUCCESS"
    using app_configure(1) [OF _ _ _ e] by (simp add: variants)
  have c': "fst (configure_library_path noexec_sys ''/tmp/app''
            (snd (validate_bundle noexec_sys ''/tmp/app'' st_env))) = EXIT_SUCCESS"
    using app_configure(1) [OF _ _ _ e'] by (simp add: variants)
  have env: "environ (snd (configure_library_path app_sys ''/tmp/app''
            (snd (validate_bundle app_sys ''/tmp/app'' st_env)))) =
        [LD_LIBRARY_PATH \<mapsto> ''/tmp/app/library:/usr/lib'']"
    using app_configure(2) [OF _ _ _ e] by (simp add: variants st_env_def)
  have x: "execv_errno app_sys ''/tmp/app/exec/base'' = None"
    "execv_errno noexec_sys ''/tmp/app/exec/base'' = Some ''Exec format error''"
    by (simp_all add: app_sys_def noexec_sys_def)
  show ?thesis
    using launch_application_handoff [OF v c] launch_application_handoff [OF v' c'] v c env x
    by (simp add: snprintf_def EXEC_PATH_def variants)
qed

subsection \<open>C4: no directory, no configuration\<close>

text \<open>
  C4. When the bundle path does not name an existing directory, \<open>launch_application\<close>
  returns \<open>EXIT_BUNDLE_ERROR\<close>, which is 2, after one \<open>stat\<close> (none for the empty
  path) and one logged error: it neither reads nor writes the environment. The same
  holds of \<open>main\<close> for every bundle path it lets through to \<open>launch_application\<close>.
\<close>

theorem launch_application_no_directory:
  assumes "stat s bundle_path \<noteq> Some IFDIR"
  shows "fst (launch_application s bundle_path st) = Returns EXIT_BUNDLE_ERROR
       \<and> EXIT_BUNDLE_ERROR = 2
       \<and> environ (snd (launch_application s bundle_path st)) = environ st
       \<and> calls_since st (snd (launch_application s bundle_path st)) =
           (if bundle_path = [] then [] else [Stat bundle_path]) @
           [Log LOG_ERROR (''Bundle directory not found: '' @ bundle_path)]
       \<and> filter env_call (calls_since st (snd (launch_application s bundle_path st))) = []
       \<and> (length bundle_path < PATH_MAX s \<longrightarrow>
            fst (main s [prog, bundle_path] st) = Returns EXIT_BUNDLE_ERROR \<and>
            environ (snd (main s [prog, bundle_path] st)) = environ st \<and>
            filter env_call (calls_since st (snd (main s [prog, bundle_path] st))) = [])"
proof -
  have v: "validate_bundle s bundle_path st' =
      (EXIT_BUNDLE_ERROR,
       log_message LOG_ERROR (''Bundle directory not found: '' @ bundle_path)
         (if bundle_path = [] then st' else emit (Stat bundle_path) st'))" for st'
    using assms by (simp add: validate_bundle_eq Let_def)
  have la: "launch_application s bundle_path st' =
      (Returns EXIT_BUNDLE_ERROR,
       log_message LOG_ERROR (''Bundle directory not found: '' @ bundle_path)
         (if bundle_path = [] then st' else emit (Stat bundle_path) st'))" for st'
    using launch_application_stops(1) [of s bundle_path st'] by (simp add: v exit_codes)
  show ?thesis
    by (simp add: la main_def Let_def calls_since_def exit_codes)
qed

theorem launch_application_no_directory_witness:
  "stat app_sys ''/tmp/missing'' \<noteq> Some IFDIR
   \<and> fst (launch_application app_sys ''/tmp/missing'' st_env) = Returns EXIT_BUNDLE_ERROR
   \<and> calls_since st_env (snd (launch_application app_sys ''/tmp/missing'' st_env)) =
       [Stat ''/tmp/missing'', Log LOG_ERROR ''Bundle directory not found: /tmp/missing'']
   \<and> environ (snd (launch_application app_sys ''/tmp/missing'' st_env)) = environ st_env
   \<and> fst (main app_sys [''vlaunch'', ''/tmp/missing''] st_env) = Returns EXIT_BUNDLE_ERROR"
proof -
  have d: "stat app_sys ''/tmp/missing'' \<noteq> Some IFDIR"
    using app_stat(4) [of app_sys] by (simp add: variants)
  show ?thesis
    using launch_application_no_directory [OF d, of st_env "''vlaunch''"] d
    by (simp add: variants)
qed

subsection \<open>C5: a bundle without a library directory\<close>

text \<open>
  Where \<open>bundle_path/library\<close> fits the path buffer, a bundle without that directory
  leaves the environment alone, and the configurator succeeds.
\<close>

lemma configure_library_path_no_library:
  assumes "length bundle_path + length LIB_PATH < PATH_MAX s"
    and "stat s (bundle_path @ LIB_PATH) \<noteq> Some IFDIR"
  shows "fst (configure_library_path s bundle_path st) = EXIT_SUCCESS
       \<and> environ (snd (configure_library_path s bundle_path st)) = environ st
       \<and> filter env_call (calls_since st (snd (configure_library_path s bundle_path st))) = []"
proof -
  have lib: "snprintf (PATH_MAX s) (bundle_path @ LIB_PATH) = bundle_path @ LIB_PATH"
    using assms(1) by (simp add: snprintf_fits)
  show ?thesis
    unfolding configure_library_path_eq lib Let_def
    using assms(2) by (simp add: calls_since_def)
qed

text \<open>
  C5 fails for a long bundle path. \<open>main\<close> lets through every path shorter than
  \<open>PATH_MAX\<close>, and \<open>snprintf\<close> cuts \<open>bundle_path/library\<close> to \<open>PATH_MAX - 1\<close>
  characters: for the bundle of 4088 characters the configurator looks for
  \<open>librar\<close>. That directory exists, \<open>library\<close> does not, the validator has accepted
  the bundle, and the configurator sets \<open>LD_LIBRARY_PATH\<close>, which was unset.
\<close>

theorem configure_library_path_long_bundle:
  "length long_bundle < PATH_MAX long_sys
   \<and> stat long_sys (long_bundle @ LIB_PATH) \<noteq> Some IFDIR
   \<and> lstat long_sys (long_bundle @ LIB_PATH) = None
   \<and> fst (validate_bundle long_sys long_bundle st0) = EXIT_SUCCESS
   \<and> fst (configure_library_path long_sys long_bundle st0) = EXIT_SUCCESS
   \<and> environ st0 LD_LIBRARY_PATH = None
   \<and> environ (snd (configure_library_path long_sys long_bundle st0)) LD_LIBRARY_PATH =
       Some (long_bundle @ ''/librar'')
   \<and> fst (main long_sys [''vlaunch'', long_bundle] st0) =
       Replaced (long_bundle @ ''/exec/b'') [long_bundle @ ''/exec/b'']
         [LD_LIBRARY_PATH \<mapsto> long_bundle @ ''/librar'']"
proof -
  let ?st = "log_message LOG_INFO (''Target bundle: '' @ long_bundle)
               (log_message LOG_INFO ''Starting Application Launcher v1.0.0'' st0)"
  have len: "length long_bundle < PATH_MAX long_sys"
    using long_paths(1) by (simp add: variants)
  have e: "environ st0 LD_LIBRARY_PATH = None"
    "environ (snd (validate_bundle long_sys long_bundle ?st)) LD_LIBRARY_PATH = None"
    by (simp_all add: st0_def)
  have x: "execv_errno long_sys (long_bundle @ ''/exec/b'') = None"
    by (simp add: long_sys_def app_sys_def)
  have env: "environ (snd (configure_library_path long_sys long_bundle
                        (snd (validate_bundle long_sys long_bundle ?st)))) =
      [LD_LIBRARY_PATH \<mapsto> long_bundle @ ''/librar'']"
    using long_configure(2) [OF e(2)] by (simp add: st0_def)
  have "fst (launch_application long_sys long_bundle ?st) =
      Replaced (long_bundle @ ''/exec/b'') [long_bundle @ ''/exec/b'']
        [LD_LIBRARY_PATH \<mapsto> long_bundle @ ''/librar'']"
    unfolding launch_application_handoff_eq [OF long_validate long_configure(1) [OF e(2)]]
      long_paths Let_def
    using env by (simp add: x)
  then have "fst (main long_sys [''vlaunch'', long_bundle] st0) =
      Replaced (long_bundle @ ''/exec/b'') [long_bundle @ ''/exec/b'']
        [LD_LIBRARY_PATH \<mapsto> long_bundle @ ''/librar'']"
    unfolding main_passes [OF len]
    by (cases "launch_application long_sys long_bundle ?st") auto
  then show ?thesis
    using len long_stat(4,5) long_validate [of st0] long_configure [OF e(1)] e(1)
    by simp
qed

subsection \<open>C6: system errors of the configurator\<close>

text \<open>
  C6. On a platform whose \<open>PATH_MAX\<close> is at most \<open>MAX_ENV_LENGTH\<close> (4096, as on
  Linux), \<open>configure_library_path\<close> returns \<open>EXIT_SYSTEM_ERROR\<close>, which is 4,
  exactly when the library directory exists and either the new value does not fit
  \<open>MAX_ENV_LENGTH\<close> bytes with its terminating NUL or \<open>setenv\<close> fails on it; in
  every other case it returns \<open>EXIT_SUCCESS\<close>. When it returns the error after a
  successful validation, \<open>launch_application\<close> returns the same code and has not
  called \<open>execv\<close>.
\<close>

theorem configure_library_path_system_error:
  assumes "PATH_MAX s \<le> MAX_ENV_LENGTH"
  shows "(fst (configure_library_path s bundle_path st) = EXIT_SYSTEM_ERROR \<longleftrightarrow>
            stat s (snprintf (PATH_MAX s) (bundle_path @ LIB_PATH)) = Some IFDIR \<and>
            (MAX_ENV_LENGTH <
               length (joined_value (snprintf (PATH_MAX s) (bundle_path @ LIB_PATH))
                         (environ st LD_LIBRARY_PATH)) + 1 \<or>
             setenv_errno s LD_LIBRARY_PATH
               (joined_value (snprintf (PATH_MAX s) (bundle_path @ LIB_PATH))
                  (environ st LD_LIBRARY_PATH)) \<noteq> None))
       \<and> (fst (configure_library_path s bundle_path st) \<noteq> EXIT_SYSTEM_ERROR \<longrightarrow>
            fst (configure_library_path s bundle_path st) = EXIT_SUCCESS)
       \<and> EXIT_SYSTEM_ERROR = 4
       \<and> (fst (validate_bundle s bundle_path st) = EXIT_SUCCESS \<and>
          fst (configure_library_path s bundle_path (snd (validate_bundle s bundle_path st))) =
            EXIT_SYSTEM_ERROR \<longrightarrow>
            fst (launch_application s bundle_path st) = Returns EXIT_SYSTEM_ERROR \<and>
            filter is_execv (calls_since st (snd (launch_application s bundle_path st))) = [])"
proof -
  define lib where "lib = snprintf (PATH_MAX s) (bundle_path @ LIB_PATH)"
  define cur where "cur = environ st LD_LIBRARY_PATH"
  have len: "length lib < MAX_ENV_LENGTH \<or> (PATH_MAX s = 0 \<and> lib = [])"
    using assms by (auto simp: lib_def snprintf_def)
  have fits: "\<not> MAX_ENV_LENGTH < length (joined_value lib cur) + 1
      \<Longrightarrow> snprintf MAX_ENV_LENGTH (joined_value lib cur) = joined_value lib cur"
    by (simp add: snprintf_def)
  have short: "cur = None \<or> cur = Some [] \<Longrightarrow> \<not> MAX_ENV_LENGTH < length (joined_value lib cur) + 1"
    using len by (auto simp: joined_value_def MAX_ENV_LENGTH_def)
  have new: "new_ld_path lib cur =
      (if MAX_ENV_LENGTH < length (joined_value lib cur) + 1 then None
       else Some (joined_value lib cur))"
    using short fits by (auto simp: new_ld_path_joined)
  have a: "(fst (configure_library_path s bundle_path st) = EXIT_SYSTEM_ERROR \<longleftrightarrow>
            stat s lib = Some IFDIR \<and>
            (MAX_ENV_LENGTH < length (joined_value lib cur) + 1 \<or>
             setenv_errno s LD_LIBRARY_PATH (joined_value lib cur) \<noteq> None))"
    unfolding configure_library_path_eq Let_def lib_def [symmetric] cur_def [symmetric] new
    by (auto simp: exit_codes split: option.splits)
  have b: "fst (configure_library_path s bundle_path st) \<noteq> EXIT_SYSTEM_ERROR \<longrightarrow>
            fst (configure_library_path s bundle_path st) = EXIT_SUCCESS"
    unfolding configure_library_path_eq Let_def
    by (auto simp: exit_codes split: option.splits)
  have c: "fst (validate_bundle s bundle_path st) = EXIT_SUCCESS \<and>
          fst (configure_library_path s bundle_path (snd (validate_bundle s bundle_path st))) =
            EXIT_SYSTEM_ERROR \<longrightarrow>
            fst (launch_application s bundle_path st) = Returns EXIT_SYSTEM_ERROR \<and>
            filter is_execv (calls_since st (snd (launch_application s bundle_path st))) = []"
  proof (intro impI, elim conjE)
    let ?v = "validate_bundle s bundle_path st"
    let ?c = "configure_library_path s bundle_path (snd ?v)"
    assume v: "fst ?v = EXIT_SUCCESS" and e: "fst ?c = EXIT_SYSTEM_ERROR"
    have la: "launch_application s bundle_path st = (Returns EXIT_SYSTEM_ERROR, snd ?c)"
      using v e by (simp add: launch_application_def split_beta exit_codes)
    obtain e1 where e1: "trace (snd ?v) = trace st @ e1" "filter is_execv e1 = []"
      using validate_bundle_calls by blast
    obtain e2 where e2: "trace (snd ?c) = trace (snd ?v) @ e2" "filter is_execv e2 = []"
      using configure_library_path_calls by blast
    have "calls_since st (snd ?c) = e1 @ e2"
      using e1 e2 by simp
    then show "fst (launch_application s bundle_path st) = Returns EXIT_SYSTEM_ERROR \<and>
            filter is_execv (calls_since st (snd (launch_application s bundle_path st))) = []"
      using la e1 e2 by simp
  qed
  show ?thesis
    using a b c exit_codes(5) unfolding lib_def cur_def by blast
qed

text \<open>
  The theorem at \<open>/tmp/app\<close>: once with a search path of 4090 characters, once with
  \<open>setenv\<close> out of memory.
\<close>

theorem configure_library_path_system_error_witness:
  "PATH_MAX app_sys \<le> MAX_ENV_LENGTH
   \<and> fst (configure_library_path app_sys ''/tmp/app'' st_full) = EXIT_SYSTEM_ERROR
   \<and> fst (configure_library_path nomem_sys ''/tmp/app'' st_env) = EXIT_SYSTEM_ERROR
   \<and> fst (configure_library_path app_sys ''/tmp/app'' st_env) = EXIT_SUCCESS
   \<and> fst (launch_application nomem_sys ''/tmp/app'' st_env) = Returns EXIT_SYSTEM_ERROR
   \<and> filter is_execv (calls_since st_env (snd (launch_application nomem_sys ''/tmp/app'' st_env)))
       = []"
proof -
  have p: "PATH_MAX app_sys \<le> MAX_ENV_LENGTH" "PATH_MAX nomem_sys \<le> MAX_ENV_LENGTH"
    by (simp_all add: variants MAX_ENV_LENGTH_def)
  have j: "joined_value ''/tmp/app/library'' (environ st_full LD_LIBRARY_PATH) =
      ''/tmp/app/library:'' @ replicate 4090 (CHR ''x'')"
    "joined_value ''/tmp/app/library'' (environ st_env LD_LIBRARY_PATH) =
      ''/tmp/app/library:/usr/lib''"
    by (simp_all add: joined_value_def st_full_def st_env_def)
  have m: "setenv_errno nomem_sys LD_LIBRARY_PATH ''/tmp/app/library:/usr/lib'' \<noteq> None"
    "setenv_errno app_sys LD_LIBRARY_PATH ''/tmp/app/library:/usr/lib'' = None"
    by (simp_all add: nomem_sys_def app_sys_def)
  have v: "fst (validate_bundle nomem_sys ''/tmp/app'' st_env) = EXIT_SUCCESS"
    by (simp add: app_validate variants)
  have full: "fst (configure_library_path app_sys ''/tmp/app'' st_full) = EXIT_SYSTEM_ERROR"
    using configure_library_path_system_error [OF p(1), of "''/tmp/app''" st_full]
      app_stat(3) [of app_sys]
    by (simp add: snprintf_def LIB_PATH_def variants j MAX_ENV_LENGTH_def)
  have nomem: "fst (configure_library_path nomem_sys ''/tmp/app'' st') = EXIT_SYSTEM_ERROR"
    if "environ st' = environ st_env" for st'
    using configure_library_path_system_error [OF p(2), of "''/tmp/app''" st']
      app_stat(3) [of nomem_sys] that
    by (simp add: snprintf_def LIB_PATH_def variants j m)
  have fine: "fst (configure_library_path app_sys ''/tmp/app'' st_env) = EXIT_SUCCESS"
    using configure_library_path_system_error [OF p(1), of "''/tmp/app''" st_env]
      app_stat(3) [of app_sys]
    by (simp add: snprintf_def LIB_PATH_def variants j m MAX_ENV_LENGTH_def exit_codes)
  show ?thesis
    using configure_library_path_system_error [OF p(2), of "''/tmp/app''" st_env]
      p(1) full nomem v fine
    by simp
qed

subsection \<open>C7: the number of arguments\<close>

text \<open>
  C7. Started with no bundle path or with more than one argument after the program
  name (\<open>argc\<close> is not 2), \<open>main\<close> logs an error, prints the usage text and returns
  \<open>EXIT_INVALID_ARGS\<close>, which is 1. These two are its only calls: there is no
  \<open>stat\<close>, no \<open>access\<close> and no \<open>execv\<close>, and the environment is as it was.
\<close>

theorem main_wrong_argument_count:
  assumes "length argv \<noteq> 2"
  shows "fst (main s argv st) = Returns EXIT_INVALID_ARGS
       \<and> EXIT_INVALID_ARGS = 1
       \<and> calls_since st (snd (main s argv st)) =
           [Log LOG_ERROR (if length argv > 2 then ''Too many arguments provided''
                           else ''Missing required bundle path argument''),
            Usage (case argv of [] \<Rightarrow> ''(null)'' | a # rest \<Rightarrow> a)]
       \<and> filter file_call (calls_since st (snd (main s argv st))) = []
       \<and> environ (snd (main s argv st)) = environ st"
  using assms
  by (simp add: main_def Let_def calls_since_def show_ptr_def exit_codes split: list.splits)

theorem main_wrong_argument_count_witness:
  "length [''vlaunch''] \<noteq> 2 \<and> length [''vlaunch'', ''/tmp/app'', ''--verbose''] \<noteq> 2
   \<and> fst (main app_sys [''vlaunch''] st0) = Returns EXIT_INVALID_ARGS
   \<and> calls_since st0 (snd (main app_sys [''vlaunch''] st0)) =
       [Log LOG_ERROR ''Missing required bundle path argument'', Usage ''vlaunch'']
   \<and> fst (main app_sys [''vlaunch'', ''/tmp/app'', ''--verbose''] st0) =
       Returns EXIT_INVALID_ARGS
   \<and> calls_since st0 (snd (main app_sys [''vlaunch'', ''/tmp/app'', ''--verbose''] st0)) =
       [Log LOG_ERROR ''Too many arguments provided'', Usage ''vlaunch'']"
proof -
  have a: "length [''vlaunch''] \<noteq> 2"
    and b: "length [''vlaunch'', ''/tmp/app'', ''--verbose''] \<noteq> 2"
    by simp_all
  show ?thesis
    using main_wrong_argument_count [OF a, of app_sys st0]
      main_wrong_argument_count [OF b, of app_sys st0]
    by simp
qed

subsection \<open>C8: no handoff without validation\<close>

text \<open>
  The order of the steps. Whenever a run of \<open>launch_application\<close> calls \<open>execv\<close>,
  the validator has returned \<open>EXIT_SUCCESS\<close>; the path handed to \<open>execv\<close> is the
  one the validator built, \<open>stat\<close> reports it as a regular file and \<open>access\<close>
  grants \<open>X_OK\<close> on it, and both calls were made on that path earlier in the run.
  That path is \<open>bundle_path/exec/base\<close> only where it fits the path buffer.
\<close>

lemma handoff_only_after_validation:
  assumes "Execv path args \<in> set (calls_since st (snd (launch_application s bundle_path st)))"
  shows "fst (validate_bundle s bundle_path st) = EXIT_SUCCESS
       \<and> path = snprintf (PATH_MAX s) (bundle_path @ EXEC_PATH)
       \<and> (length bundle_path + length EXEC_PATH < PATH_MAX s \<longrightarrow> path = bundle_path @ EXEC_PATH)
       \<and> stat s path = Some IFREG
       \<and> access_X_OK s path
       \<and> (\<exists>before after.
            calls_since st (snd (launch_application s bundle_path st)) =
              before @ Execv path args # after \<and>
            Stat path \<in> set before \<and> Access path \<in> set before \<and>
            Execv path args \<notin> set before)"
proof -
  let ?v = "validate_bundle s bundle_path st"
  let ?c = "configure_library_path s bundle_path (snd ?v)"
  let ?x = "snprintf (PATH_MAX s) (bundle_path @ EXEC_PATH)"
  obtain e1 where e1: "trace (snd ?v) = trace st @ e1" "filter is_execv e1 = []"
    using validate_bundle_calls by blast
  obtain e2 where e2: "trace (snd ?c) = trace (snd ?v) @ e2" "filter is_execv e2 = []"
    using configure_library_path_calls by blast
  have v: "fst ?v = EXIT_SUCCESS"
  proof (rule ccontr)
    assume "fst ?v \<noteq> EXIT_SUCCESS"
    then have "calls_since st (snd (launch_application s bundle_path st)) = e1"
      using e1 by (simp add: launch_application_stops)
    then show False using assms e1 no_execv by metis
  qed
  have c: "fst ?c = EXIT_SUCCESS"
  proof (rule ccontr)
    assume "fst ?c \<noteq> EXIT_SUCCESS"
    then have "calls_since st (snd (launch_application s bundle_path st)) = e1 @ e2"
      using e1 e2 v by (simp add: launch_application_stops)
    moreover have "filter is_execv (e1 @ e2) = []"
      using e1 e2 by simp
    ultimately show False using assms no_execv by metis
  qed
  obtain mid fin where mid: "filter is_execv mid = []" and fin: "filter is_execv fin = []"
    and calls: "calls_since st (snd (launch_application s bundle_path st)) =
       [Stat bundle_path, Stat ?x, Access ?x] @ mid @ [Execv ?x [?x]] @ fin"
    using launch_application_handoff_calls [OF v c] by blast
  have "Execv path args \<in> set ([Stat bundle_path, Stat ?x, Access ?x] @ mid @ [Execv ?x [?x]] @ fin)"
    using assms calls by simp
  then have eq: "path = ?x" "args = [?x]"
    using no_execv [OF mid] no_execv [OF fin] by auto
  have "calls_since st (snd (launch_application s bundle_path st)) =
          ([Stat bundle_path, Stat path, Access path] @ mid) @ Execv path args # fin"
    using calls eq by simp
  moreover have "Stat path \<in> set ([Stat bundle_path, Stat path, Access path] @ mid)"
    "Access path \<in> set ([Stat bundle_path, Stat path, Access path] @ mid)"
    "Execv path args \<notin> set ([Stat bundle_path, Stat path, Access path] @ mid)"
    using no_execv [OF mid] by simp_all
  ultimately have ex: "\<exists>before after.
            calls_since st (snd (launch_application s bundle_path st)) =
              before @ Execv path args # after \<and>
            Stat path \<in> set before \<and> Access path \<in> set before \<and>
            Execv path args \<notin> set before"
    by blast
  show ?thesis
    using v eq(1) validate_bundle_success(2,3) [OF v] ex
    by (simp add: snprintf_fits)
qed

lemma handoff_only_after_validation_app:
  "Execv ''/tmp/app/exec/base'' [''/tmp/app/exec/base'']
     \<in> set (calls_since st0 (snd (launch_application app_sys ''/tmp/app'' st0)))
   \<and> fst (validate_bundle app_sys ''/tmp/app'' st0) = EXIT_SUCCESS
   \<and> stat app_sys ''/tmp/app/exec/base'' = Some IFREG
   \<and> access_X_OK app_sys ''/tmp/app/exec/base''"
proof -
  have v: "fst (validate_bundle app_sys ''/tmp/app'' st0) = EXIT_SUCCESS"
    by (simp add: app_validate variants)
  have c: "fst (configure_library_path app_sys ''/tmp/app''
            (snd (validate_bundle app_sys ''/tmp/app'' st0))) = EXIT_SUCCESS"
    unfolding configure_library_path_eq app_paths [OF variants(7)] Let_def
    using app_stat(3) [of app_sys]
    by (simp add: variants st0_def new_ld_path_def app_sys_def)
  have x: "Execv ''/tmp/app/exec/base'' [''/tmp/app/exec/base'']
     \<in> set (calls_since st0 (snd (launch_application app_sys ''/tmp/app'' st0)))"
    using launch_application_handoff_calls [OF v c]
    by (auto simp: snprintf_def EXEC_PATH_def variants)
  show ?thesis
    using handoff_only_after_validation [OF x] x v
    by (simp add: snprintf_def EXEC_PATH_def variants)
qed

text \<open>
  C8. When the launcher reaches \<open>execv\<close>, the validator is to have confirmed that
  \<open>bundle_path/exec/base\<close> exists and may be executed. The code does not keep this
  for a long bundle path: \<open>main\<close> lets through every path shorter than
  \<open>PATH_MAX\<close>, and \<open>snprintf\<close> cuts \<open>bundle_path/exec/base\<close> to
  \<open>PATH_MAX - 1\<close> characters. For the bundle of 4088 characters the validator checks
  \<open>exec/b\<close> and succeeds, and the launcher calls \<open>execv\<close> on \<open>exec/b\<close>, while
  \<open>exec/base\<close> does not exist.
\<close>

theorem handoff_long_bundle:
  "length long_bundle < PATH_MAX long_sys
   \<and> fst (validate_bundle long_sys long_bundle st0) = EXIT_SUCCESS
   \<and> Execv (long_bundle @ ''/exec/b'') [long_bundle @ ''/exec/b'']
       \<in> set (calls_since st0 (snd (launch_application long_sys long_bundle st0)))
   \<and> filter is_execv (calls_since st0 (snd (launch_application long_sys long_bundle st0))) =
       [Execv (long_bundle @ ''/exec/b'') [long_bundle @ ''/exec/b'']]
   \<and> long_bundle @ ''/exec/b'' \<noteq> long_bundle @ EXEC_PATH
   \<and> stat long_sys (long_bundle @ EXEC_PATH) = None
   \<and> lstat long_sys (long_bundle @ EXEC_PATH) = None
   \<and> \<not> access_X_OK long_sys (long_bundle @ EXEC_PATH)"
proof -
  let ?x = "long_bundle @ ''/exec/b''"
  have len: "length long_bundle < PATH_MAX long_sys"
    using long_paths(1) by (simp add: variants)
  have e: "environ (snd (validate_bundle long_sys long_bundle st0)) LD_LIBRARY_PATH = None"
    by (simp add: st0_def)
  obtain mid fin where mid: "filter is_execv mid = []" and fin: "filter is_execv fin = []"
    and calls: "calls_since st0 (snd (launch_application long_sys long_bundle st0)) =
       [Stat long_bundle, Stat ?x, Access ?x] @ mid @ [Execv ?x [?x]] @ fin"
    using launch_application_handoff_calls [OF long_validate long_configure(1) [OF e]]
    unfolding long_paths by blast
  have gone: "lstat long_sys (long_bundle @ EXEC_PATH) = None"
    "\<not> access_X_OK long_sys (long_bundle @ EXEC_PATH)"
    using long_paths(1)
    by (simp_all add: lstat_def access_X_OK_def too_long_def variants EXEC_PATH_def)
  have other: "?x \<noteq> long_bundle @ EXEC_PATH"
    by (simp add: EXEC_PATH_def)
  have "filter is_execv (calls_since st0 (snd (launch_application long_sys long_bundle st0))) =
      [Execv ?x [?x]]"
    using calls mid fin by simp
  moreover have "Execv ?x [?x]
      \<in> set (calls_since st0 (snd (launch_application long_sys long_bundle st0)))"
    using calls by simp
  ultimately show ?thesis
    using len long_validate [of st0] long_stat(7) gone other by simp
qed

subsection \<open>C9: a bundle path of PATH_MAX characters or more\<close>

text \<open>
  C9. Started with one argument of at least \<open>PATH_MAX\<close> characters, \<open>main\<close> logs
  that the path is too long and returns \<open>EXIT_INVALID_ARGS\<close>, which is 1. The log is
  its only call: the validator does not run, and there is no \<open>stat\<close>, no \<open>access\<close>
  and no \<open>execv\<close>.
\<close>

theorem main_path_too_long:
  assumes "length bundle_path \<ge> PATH_MAX s"
  shows "fst (main s [prog, bundle_path] st) = Returns EXIT_INVALID_ARGS
       \<and> EXIT_INVALID_ARGS = 1
       \<and> calls_since st (snd (main s [prog, bundle_path] st)) =
           [Log LOG_ERROR
              (''Bundle path too long (max '' @ show_nat (PATH_MAX s - 1) @ '' characters)'')]
       \<and> filter file_call (calls_since st (snd (main s [prog, bundle_path] st))) = []
       \<and> environ (snd (main s [prog, bundle_path] st)) = environ st"
  using assms
  by (simp add: main_def Let_def calls_since_def exit_codes)

theorem main_path_too_long_witness:
  "length (replicate 4096 (CHR ''a'')) \<ge> PATH_MAX app_sys
   \<and> fst (main app_sys [''vlaunch'', replicate 4096 (CHR ''a'')] st0) = Returns EXIT_INVALID_ARGS
   \<and> calls_since st0 (snd (main app_sys [''vlaunch'', replicate 4096 (CHR ''a'')] st0)) =
       [Log LOG_ERROR ''Bundle path too long (max 4095 characters)'']"
proof -
  have a: "length (replicate 4096 (CHR ''a'')) \<ge> PATH_MAX app_sys"
    by (simp add: variants)
  have n: "show_nat 4095 = ''4095''"
    by (simp add: show_nat.simps)
  show ?thesis
    using main_path_too_long [OF a, of "''vlaunch''" st0] a
    by (simp add: variants n)
qed

subsection \<open>C10: the variable set to the empty string\<close>

text \<open>
  C10. On a platform whose \<open>PATH_MAX\<close> is at most \<open>MAX_ENV_LENGTH\<close>, when the
  bundle has a \<open>library\<close> directory, \<open>LD_LIBRARY_PATH\<close> is set to the empty string
  and the configurator succeeds, the variable afterwards holds the path of the library
  directory and nothing else, neither a colon nor an empty component; the configurator
  returns what it returns, and leaves the state it leaves, when the variable is unset.
\<close>

theorem configure_library_path_empty_value:
  assumes "stat s (bundle_path @ LIB_PATH) = Some IFDIR"
    and "environ st LD_LIBRARY_PATH = Some []"
    and "PATH_MAX s \<le> MAX_ENV_LENGTH"
    and "fst (configure_library_path s bundle_path st) = EXIT_SUCCESS"
  shows "environ (snd (configure_library_path s bundle_path st)) =
           (environ st)(LD_LIBRARY_PATH \<mapsto> bundle_path @ LIB_PATH)
       \<and> configure_library_path s bundle_path st =
           configure_library_path s bundle_path
             (st\<lparr>environ := (environ st)(LD_LIBRARY_PATH := None)\<rparr>)"
proof -
  have fits: "length (bundle_path @ LIB_PATH) < PATH_MAX s"
    using stat_Some_fits [OF assms(1)] by simp
  have lib: "snprintf (PATH_MAX s) (bundle_path @ LIB_PATH) = bundle_path @ LIB_PATH"
    using fits by (simp add: snprintf_fits)
  have new: "snprintf MAX_ENV_LENGTH (bundle_path @ LIB_PATH) = bundle_path @ LIB_PATH"
    using fits assms(3) by (simp add: snprintf_fits)
  show ?thesis
    using assms unfolding configure_library_path_eq lib Let_def
    apply (auto simp: new_ld_path_def new exit_codes emit_def log_message_def split: option.splits if_splits)
    done
qed

theorem configure_library_path_empty_value_witness:
  "stat app_sys (''/tmp/app'' @ LIB_PATH) = Some IFDIR
   \<and> environ st_empty LD_LIBRARY_PATH = Some []
   \<and> PATH_MAX app_sys \<le> MAX_ENV_LENGTH
   \<and> fst (configure_library_path app_sys ''/tmp/app'' st_empty) = EXIT_SUCCESS
   \<and> environ (snd (configure_library_path app_sys ''/tmp/app'' st_empty)) LD_LIBRARY_PATH =
       Some ''/tmp/app/library''"
proof -
  have d: "stat app_sys (''/tmp/app'' @ LIB_PATH) = Some IFDIR"
    using app_stat(3) [of app_sys] by (simp add: LIB_PATH_def variants)
  have e: "environ st_empty LD_LIBRARY_PATH = Some []"
    by (simp add: st_empty_def)
  have p: "PATH_MAX app_sys \<le> MAX_ENV_LENGTH"
    by (simp add: variants MAX_ENV_LENGTH_def)
  have ok: "fst (configure_library_path app_sys ''/tmp/app'' st_empty) = EXIT_SUCCESS"
    unfolding configure_library_path_eq app_paths [OF variants(7)] Let_def
    using app_stat(3) [of app_sys]
    by (simp add: variants st_empty_def new_ld_path_def app_sys_def)
  show ?thesis
    using configure_library_path_empty_value [OF d e p ok, THEN conjunct1] d e p ok
    by (simp add: LIB_PATH_def)
qed

end
